theory Spec2Isabelle
  imports Main "HOL-Library.Sublist"
begin

section \<open>Strings\<close>

text \<open>
  Python strings are sequences of code points. They are modelled as \<^typ>\<open>string\<close>, each
  \<^typ>\<open>char\<close> standing for the code point of the same number, so the model covers the
  strings whose code points are below 256 (ASCII and Latin-1). On those, \<open>str.lower\<close>
  and \<open>str.isspace\<close> are as written below.
\<close>

definition lower_char :: "char \<Rightarrow> char" where
  "lower_char c =
     (let n = (of_char c :: nat)
      in if (65 \<le> n \<and> n \<le> 90) \<or> (192 \<le> n \<and> n \<le> 222 \<and> n \<noteq> 215)
         then char_of (n + 32) else c)"

definition lower :: "string \<Rightarrow> string" where
  "lower s = map lower_char s"

text \<open>\<open>t in s\<close> on strings: \<open>t\<close> occurs in \<open>s\<close> as a contiguous run.\<close>

fun str_in :: "string \<Rightarrow> string \<Rightarrow> bool" where
  "str_in t [] = (t = [])"
| "str_in t (c # s) = (prefix t (c # s) \<or> str_in t s)"

text \<open>\<open>any(term in s for term in terms)\<close>\<close>

definition any_in :: "string list \<Rightarrow> string \<Rightarrow> bool" where
  "any_in terms s = list_ex (\<lambda>t. str_in t s) terms"

text \<open>\<open>str.isspace\<close> of one code point below 256, and \<open>str.strip()\<close>.\<close>

definition isspace :: "char \<Rightarrow> bool" where
  "isspace c =
     (let n = (of_char c :: nat)
      in (9 \<le> n \<and> n \<le> 13) \<or> (28 \<le> n \<and> n \<le> 32) \<or> n = 133 \<or> n = 160)"

definition strip :: "string \<Rightarrow> string" where
  "strip s = rev (dropWhile isspace (rev (dropWhile isspace s)))"

text \<open>
  \<open>s.split(sep)\<close> for a separator of one character: the pieces between the
  separators, so at least one piece (the empty string gives one empty piece). The last
  case of the \<open>case\<close> is never reached.
\<close>

fun split_on :: "char \<Rightarrow> string \<Rightarrow> string list" where
  "split_on sep [] = [[]]"
| "split_on sep (c # s) =
     (if c = sep then [] # split_on sep s
      else (case split_on sep s of p # ps \<Rightarrow> (c # p) # ps | [] \<Rightarrow> [[c]]))"

abbreviation TAB :: char where "TAB \<equiv> CHR 0x09"
abbreviation NEWLINE :: char where "NEWLINE \<equiv> CHR 0x0A"

section \<open>Category guess\<close>

text \<open>
  \<open>_guess_category_from_id\<close> (an Isabelle name cannot start with an underscore): the
  chain of \<open>if\<close>/\<open>elif\<close> of the source, in its order.
\<close>

definition guess_category_from_id :: "string \<Rightarrow> string list" where
  "guess_category_from_id app_id =
     (let app_id_lower = lower app_id
      in if any_in [''firefox'', ''chrome'', ''telegram'', ''discord'', ''thunderbird''] app_id_lower
           then [''Network'']
         else if any_in [''libreoffice'', ''writer'', ''calc''] app_id_lower
           then [''Office'']
         else if any_in [''gimp'', ''inkscape'', ''blender'', ''krita''] app_id_lower
           then [''Graphics'']
         else if any_in [''vlc'', ''audacity'', ''spotify''] app_id_lower
           then [''AudioVideo'']
         else if any_in [''steam'', ''game'', ''chess'', ''puzzle''] app_id_lower
           then [''Game'']
         else if any_in [''code'', ''atom'', ''eclipse'', ''git''] app_id_lower
           then [''Development'']
         else if any_in [''calculator'', ''archive'', ''file''] app_id_lower
           then [''Utility'']
         else [''Other''])"

text \<open>
  The specification's reading of the same function: a fixed table of rules, each a list of
  keywords and a category; the first rule with a keyword occurring in the lower-cased id
  gives the category, and \<open>Other\<close> is the default.
\<close>

definition category_rules :: "(string list \<times> string) list" where
  "category_rules =
     [([''firefox'', ''chrome'', ''telegram'', ''discord'', ''thunderbird''], ''Network''),
      ([''libreoffice'', ''writer'', ''calc''], ''Office''),
      ([''gimp'', ''inkscape'', ''blender'', ''krita''], ''Graphics''),
      ([''vlc'', ''audacity'', ''spotify''], ''AudioVideo''),
      ([''steam'', ''game'', ''chess'', ''puzzle''], ''Game''),
      ([''code'', ''atom'', ''eclipse'', ''git''], ''Development''),
      ([''calculator'', ''archive'', ''file''], ''Utility'')]"

definition first_matching_rule :: "string \<Rightarrow> string list" where
  "first_matching_rule app_id =
     (case find (\<lambda>(keywords, category). any_in keywords (lower app_id)) category_rules of
        Some (keywords, category) \<Rightarrow> [category]
      | None \<Rightarrow> [''Other''])"

definition all_keywords :: "string list" where
  "all_keywords = concat (map fst category_rules)"

section \<open>JSON values and dictionaries\<close>

text \<open>
  What \<open>response.json()\<close> returns. A dictionary is an association list read with
  \<^const>\<open>map_of\<close> (the first binding of a key is the dictionary's). The payload of a
  number is never inspected by the functions modelled here, so a number is an integer.
\<close>

datatype json =
    JNull
  | JBool bool
  | JNum int
  | JStr string
  | JList "json list"
  | JObj "(string \<times> json) list"

type_synonym pydict = "(string \<times> json) list"

datatype py_error = AttributeError | TypeError | ValueError | RequestException

text \<open>\<open>d.get(key, default)\<close> and \<open>key in d\<close> on a dictionary.\<close>

definition dict_get :: "pydict \<Rightarrow> string \<Rightarrow> json \<Rightarrow> json" where
  "dict_get d key dflt = (case map_of d key of Some v \<Rightarrow> v | None \<Rightarrow> dflt)"

definition dict_has :: "pydict \<Rightarrow> string \<Rightarrow> bool" where
  "dict_has d key = (map_of d key \<noteq> None)"

text \<open>
  \<open>for x in v\<close>: a list gives its elements, a string its characters, a dictionary its
  keys; anything else is not iterable.
\<close>

definition py_iter :: "json \<Rightarrow> py_error + json list" where
  "py_iter v =
     (case v of
        JList xs \<Rightarrow> Inr xs
      | JStr s \<Rightarrow> Inr (map (\<lambda>c. JStr [c]) s)
      | JObj d \<Rightarrow> Inr (map JStr (remdups (map fst d)))
      | _ \<Rightarrow> Inl TypeError)"

section \<open>Catalog normalization\<close>

text \<open>
  \<open>_parse_v2_response\<close>. The source writes the loop twice, once for a top-level list
  and once for a dictionary with the key \<open>apps\<close>; the model keeps both copies.
  \<open>app.get\<close> on an entry that is not a dictionary raises \<open>AttributeError\<close>, which
  leaves the function.
\<close>

definition entry_of_list_item :: "json \<Rightarrow> py_error + pydict" where
  "entry_of_list_item app =
     (case app of
        JObj d \<Rightarrow> Inr
          [(''flatpakAppId'', dict_get d ''id'' (dict_get d ''flatpakAppId'' (JStr []))),
           (''name'', dict_get d ''name'' (dict_get d ''id'' (JStr []))),
           (''summary'',
              dict_get d ''summary'' (dict_get d ''description'' (JStr ''No description available''))),
           (''categories'', dict_get d ''categories'' (JList [])),
           (''icon'', dict_get d ''icon'' (JStr [])),
           (''screenshots'', dict_get d ''screenshots'' (JList []))]
      | _ \<Rightarrow> Inl AttributeError)"

fun parse_list_loop :: "json list \<Rightarrow> pydict list \<Rightarrow> py_error + pydict list" where
  "parse_list_loop [] apps = Inr apps"
| "parse_list_loop (app # rest) apps =
     (case entry_of_list_item app of
        Inl e \<Rightarrow> Inl e
      | Inr entry \<Rightarrow> parse_list_loop rest (apps @ [entry]))"

definition entry_of_apps_item :: "json \<Rightarrow> py_error + pydict" where
  "entry_of_apps_item app =
     (case app of
        JObj d \<Rightarrow> Inr
          [(''flatpakAppId'', dict_get d ''id'' (dict_get d ''flatpakAppId'' (JStr []))),
           (''name'', dict_get d ''name'' (dict_get d ''id'' (JStr []))),
           (''summary'',
              dict_get d ''summary'' (dict_get d ''description'' (JStr ''No description available''))),
           (''categories'', dict_get d ''categories'' (JList [])),
           (''icon'', dict_get d ''icon'' (JStr [])),
           (''screenshots'', dict_get d ''screenshots'' (JList []))]
      | _ \<Rightarrow> Inl AttributeError)"

fun parse_apps_loop :: "json list \<Rightarrow> pydict list \<Rightarrow> py_error + pydict list" where
  "parse_apps_loop [] apps = Inr apps"
| "parse_apps_loop (app # rest) apps =
     (case entry_of_apps_item app of
        Inl e \<Rightarrow> Inl e
      | Inr entry \<Rightarrow> parse_apps_loop rest (apps @ [entry]))"

definition parse_v2_response :: "json \<Rightarrow> py_error + pydict list" where
  "parse_v2_response data =
     (case data of
        JList xs \<Rightarrow> parse_list_loop xs []
      | JObj d \<Rightarrow>
          (if dict_has d ''apps''
           then (case py_iter (dict_get d ''apps'' JNull) of
                   Inl e \<Rightarrow> Inl e
                 | Inr xs \<Rightarrow> parse_apps_loop xs [])
           else Inr [])
      | _ \<Rightarrow> Inr [])"

section \<open>Subprocess outcomes\<close>

text \<open>
  \<open>subprocess.run(...)\<close> either raises (the exception's text is kept) or returns the
  exit code with the captured output and error text. With \<open>check=True\<close> a non-zero
  exit code is raised as \<open>CalledProcessError\<close>.
\<close>

datatype run_result = Raised string | Completed int string string

datatype checked_result = CalledProcessError string | OtherException string | Returned string

section \<open>Catalog fallback\<close>

text \<open>
  \<open>_load_apps_via_flatpak\<close>: the result is the list \<open>apps\<close> and the lines printed.
  Nothing in the loop raises, so the only exception is one of \<open>subprocess.run\<close>
  (the time limit of 30 seconds, a missing executable), caught by the handler around the
  whole body.
\<close>

definition popular_apps :: "(string \<times> string \<times> string \<times> string list) list" where
  "popular_apps =
     [(''org.mozilla.firefox'', ''Firefox'', ''Web browser'', [''Network'']),
      (''org.libreoffice.LibreOffice'', ''LibreOffice'', ''Office suite'', [''Office'']),
      (''org.gimp.GIMP'', ''GIMP'', ''Image editor'', [''Graphics'']),
      (''org.videolan.VLC'', ''VLC'', ''Media player'', [''AudioVideo'']),
      (''org.blender.Blender'', ''Blender'', ''3D creation suite'', [''Graphics'']),
      (''com.valvesoftware.Steam'', ''Steam'', ''Gaming platform'', [''Game'']),
      (''org.telegram.desktop'', ''Telegram'', ''Messaging app'', [''Network'']),
      (''com.spotify.Client'', ''Spotify'', ''Music streaming'', [''AudioVideo'']),
      (''org.gnome.gedit'', ''Text Editor'', ''Simple text editor'', [''Utility'']),
      (''org.kde.kate'', ''Kate'', ''Advanced text editor'', [''Development''])]"

definition app_dict :: "string \<Rightarrow> string \<Rightarrow> string \<Rightarrow> string list \<Rightarrow> pydict" where
  "app_dict app_id name summary categories =
     [(''flatpakAppId'', JStr app_id),
      (''name'', JStr name),
      (''summary'', JStr summary),
      (''categories'', JList (map JStr categories))]"

fun remote_ls_loop :: "string list \<Rightarrow> pydict list \<Rightarrow> pydict list" where
  "remote_ls_loop [] apps = apps"
| "remote_ls_loop (line # rest) apps =
     remote_ls_loop rest
       (if strip line \<noteq> [] \<and> TAB \<in> set line
        then (let parts = split_on TAB line
              in if length parts \<ge> 2
                 then (let app_id = parts ! 0;
                           name = (if parts ! 1 \<noteq> [] then parts ! 1 else app_id);
                           description =
                             (if length parts > 2 then parts ! 2 else ''No description available'');
                           categories = guess_category_from_id app_id
                       in apps @ [app_dict app_id name description categories])
                 else apps)
        else apps)"

definition seed_apps :: "pydict list" where
  "seed_apps =
     map (\<lambda>(app_id, name, summary, categories). app_dict app_id name summary categories)
       popular_apps"

definition load_apps_via_flatpak :: "run_result \<Rightarrow> pydict list \<times> string list" where
  "load_apps_via_flatpak result =
     (case result of
        Raised e \<Rightarrow> ([], [''Error in fallback app loading: '' @ e])
      | Completed returncode out err \<Rightarrow>
          (let apps = (if returncode = 0
                       then remote_ls_loop (split_on NEWLINE (strip out)) []
                       else [])
           in if apps = [] then (seed_apps, []) else (apps, [])))"

section \<open>Application state and the UI thread's queue\<close>

text \<open>
  The fields of \<open>FlatpakStore\<close> that the modelled functions read or write, and the calls
  into the user interface. \<open>GLib.idle_add(f, args)\<close> appends a call to \<open>idle_queue\<close>,
  to be run later by the UI thread; a call made at once is appended to \<open>direct_calls\<close>.
  A worker is modelled as running alone from its start to its end.
\<close>

datatype ui_call =
    ShowStatus string
  | ShowProgress bool
  | RefreshCurrentView
  | LoadInstalledApps
  | ClearInstalledContainer
  | AddInstalledAppCard string string string

record store =
  installed_apps :: "string set"
  current_operations :: "string \<rightharpoonup> string"
  idle_queue :: "ui_call list"
  direct_calls :: "ui_call list"

definition idle_add :: "ui_call \<Rightarrow> store \<Rightarrow> store" where
  "idle_add c st = st\<lparr>idle_queue := idle_queue st @ [c]\<rparr>"

definition call_now :: "ui_call \<Rightarrow> store \<Rightarrow> store" where
  "call_now c st = st\<lparr>direct_calls := direct_calls st @ [c]\<rparr>"

text \<open>The calls queued between an earlier state and a later one.\<close>

definition queued_since :: "store \<Rightarrow> store \<Rightarrow> ui_call list" where
  "queued_since st st' = drop (length (idle_queue st)) (idle_queue st')"

section \<open>Installed applications\<close>

text \<open>
  \<open>load_installed_apps\<close>: the body of the loop over the lines of the stripped output,
  then the function with its two handlers.
\<close>

fun installed_loop :: "string list \<Rightarrow> store \<Rightarrow> store" where
  "installed_loop [] st = st"
| "installed_loop (line # rest) st =
     installed_loop rest
       (if strip line \<noteq> []
        then (let parts = split_on TAB line
              in if length parts \<ge> 2
                 then (let app_id = parts ! 0;
                           name = (if length parts > 1 then parts ! 1 else app_id);
                           description =
                             (if length parts > 2 then parts ! 2 else ''No description available'')
                       in idle_add (AddInstalledAppCard app_id name description)
                            (st\<lparr>installed_apps := insert app_id (installed_apps st)\<rparr>))
                 else st)
        else st)"

definition load_installed_apps :: "checked_result \<Rightarrow> store \<Rightarrow> store" where
  "load_installed_apps result st =
     (case result of
        Returned out \<Rightarrow>
          installed_loop (split_on NEWLINE (strip out))
            (idle_add ClearInstalledContainer (st\<lparr>installed_apps := {}\<rparr>))
      | CalledProcessError e \<Rightarrow> idle_add (ShowStatus (''Error loading installed apps: '' @ e)) st
      | OtherException e \<Rightarrow> idle_add (ShowStatus (''Error: '' @ e)) st)"

text \<open>
  What one line of the output contributes, read off the loop body: the entry
  \<open>(app_id, name, description)\<close>, or nothing.
\<close>

definition installed_entry :: "string \<Rightarrow> (string \<times> string \<times> string) option" where
  "installed_entry line =
     (if strip line \<noteq> [] \<and> length (split_on TAB line) \<ge> 2
      then Some (split_on TAB line ! 0, split_on TAB line ! 1,
                 if length (split_on TAB line) > 2 then split_on TAB line ! 2
                 else ''No description available'')
      else None)"

section \<open>Operations\<close>

text \<open>
  \<open>subprocess.Popen\<close> in \<open>install_app\<close>: the launch raises, or the process starts and
  its output is read line by line (each line as \<open>readline\<close> returns it); reading may raise
  after some lines; otherwise the process is waited for and has an exit code.
\<close>

datatype popen_result =
    PopenRaised string
  | Started "string list" "string option" int

fun install_read_loop :: "string \<Rightarrow> string list \<Rightarrow> store \<Rightarrow> store" where
  "install_read_loop name [] st = st"
| "install_read_loop name (line # rest) st =
     install_read_loop name rest
       (if strip line \<noteq> []
        then idle_add (ShowStatus (''Installing '' @ name @ '': '' @ strip line)) st
        else st)"

text \<open>The \<open>try\<close> block of \<open>install_worker\<close>: the state it reaches and the exception, if any.\<close>

definition install_try :: "popen_result \<Rightarrow> string \<Rightarrow> string \<Rightarrow> store \<Rightarrow> store \<times> string option" where
  "install_try process app_id name st =
     (let st1 = idle_add (ShowStatus (''Installing '' @ name @ ''...''))
                  (call_now (ShowProgress True) st)
      in case process of
           PopenRaised e \<Rightarrow> (st1, Some e)
         | Started output read_error returncode \<Rightarrow>
             (let st2 = install_read_loop name output st1
              in case read_error of
                   Some e \<Rightarrow> (st2, Some e)
                 | None \<Rightarrow>
                     (if returncode = 0
                      then (idle_add LoadInstalledApps
                              (idle_add (ShowStatus (''Successfully installed '' @ name))
                                 (st2\<lparr>installed_apps := insert app_id (installed_apps st2)\<rparr>)),
                            None)
                      else (idle_add (ShowStatus (''Failed to install '' @ name)) st2, None))))"

text \<open>The \<open>finally\<close> block shared in shape by \<open>install_worker\<close> and \<open>uninstall_worker\<close>.\<close>

definition finally_clear_refresh :: "string \<Rightarrow> store \<Rightarrow> store" where
  "finally_clear_refresh app_id st =
     idle_add (ShowProgress False)
       (idle_add RefreshCurrentView
          (if current_operations st app_id \<noteq> None
           then st\<lparr>current_operations := (current_operations st)(app_id := None)\<rparr>
           else st))"

definition install_worker :: "popen_result \<Rightarrow> string \<Rightarrow> string \<Rightarrow> store \<Rightarrow> store" where
  "install_worker process app_id name st =
     (case install_try process app_id name st of
        (st1, None) \<Rightarrow> finally_clear_refresh app_id st1
      | (st1, Some e) \<Rightarrow>
          finally_clear_refresh app_id
            (idle_add (ShowStatus (''Error installing '' @ name @ '': '' @ e)) st1))"

definition install_app :: "popen_result \<Rightarrow> string \<Rightarrow> string \<Rightarrow> store \<Rightarrow> store" where
  "install_app process app_id name st =
     install_worker process app_id name
       (call_now RefreshCurrentView
          (st\<lparr>current_operations :=
                (current_operations st)(app_id \<mapsto> ''Installing '' @ name @ ''...'')\<rparr>))"

definition uninstall_try :: "run_result \<Rightarrow> string \<Rightarrow> string \<Rightarrow> store \<Rightarrow> store \<times> string option" where
  "uninstall_try result app_id name st =
     (let st1 = idle_add (ShowStatus (''Uninstalling '' @ name @ ''...''))
                  (call_now (ShowProgress True) st)
      in case result of
           Raised e \<Rightarrow> (st1, Some e)
         | Completed returncode out err \<Rightarrow>
             (if returncode = 0
              then (idle_add LoadInstalledApps
                      (idle_add (ShowStatus (''Successfully uninstalled '' @ name))
                         (st1\<lparr>installed_apps := installed_apps st1 - {app_id}\<rparr>)),
                    None)
              else (idle_add (ShowStatus (''Failed to uninstall '' @ name @ '': '' @ err)) st1,
                    None)))"

definition uninstall_worker :: "run_result \<Rightarrow> string \<Rightarrow> string \<Rightarrow> store \<Rightarrow> store" where
  "uninstall_worker result app_id name st =
     (case uninstall_try result app_id name st of
        (st1, None) \<Rightarrow> finally_clear_refresh app_id st1
      | (st1, Some e) \<Rightarrow>
          finally_clear_refresh app_id
            (idle_add (ShowStatus (''Error uninstalling '' @ name @ '': '' @ e)) st1))"

text \<open>\<open>uninstall_app\<close>: nothing happens unless the dialog is answered with yes.\<close>

definition uninstall_app :: "bool \<Rightarrow> run_result \<Rightarrow> string \<Rightarrow> string \<Rightarrow> store \<Rightarrow> store" where
  "uninstall_app response_yes result app_id name st =
     (if \<not> response_yes then st
      else uninstall_worker result app_id name
             (call_now RefreshCurrentView
                (st\<lparr>current_operations :=
                      (current_operations st)(app_id \<mapsto> ''Uninstalling '' @ name @ ''...'')\<rparr>)))"

definition update_try :: "run_result \<Rightarrow> string \<Rightarrow> store \<Rightarrow> store \<times> string option" where
  "update_try result name st =
     (let st1 = idle_add (ShowStatus (''Updating '' @ name @ ''...'')) st
      in case result of
           Raised e \<Rightarrow> (st1, Some e)
         | Completed returncode out err \<Rightarrow>
             (if returncode = 0
              then (idle_add (ShowStatus (''Successfully updated '' @ name)) st1, None)
              else (idle_add (ShowStatus (''No updates available for '' @ name)) st1, None)))"

definition finally_clear_reload :: "string \<Rightarrow> store \<Rightarrow> store" where
  "finally_clear_reload app_id st =
     idle_add LoadInstalledApps
       (if current_operations st app_id \<noteq> None
        then st\<lparr>current_operations := (current_operations st)(app_id := None)\<rparr>
        else st)"

definition update_worker :: "run_result \<Rightarrow> string \<Rightarrow> string \<Rightarrow> store \<Rightarrow> store" where
  "update_worker result app_id name st =
     (case update_try result name st of
        (st1, None) \<Rightarrow> finally_clear_reload app_id st1
      | (st1, Some e) \<Rightarrow>
          finally_clear_reload app_id
            (idle_add (ShowStatus (''Error updating '' @ name @ '': '' @ e)) st1))"

definition update_app :: "run_result \<Rightarrow> string \<Rightarrow> string \<Rightarrow> store \<Rightarrow> store" where
  "update_app result app_id name st =
     update_worker result app_id name
       (st\<lparr>current_operations :=
             (current_operations st)(app_id \<mapsto> ''Updating '' @ name @ ''...'')\<rparr>)"

definition update_all_try :: "run_result \<Rightarrow> store \<Rightarrow> store \<times> string option" where
  "update_all_try result st =
     (let st1 = idle_add (ShowProgress True)
                  (idle_add (ShowStatus ''Updating all applications...'') st)
      in case result of
           Raised e \<Rightarrow> (st1, Some e)
         | Completed returncode out err \<Rightarrow>
             (idle_add LoadInstalledApps
                (if returncode = 0
                 then idle_add (ShowStatus ''All applications updated successfully'') st1
                 else idle_add (ShowStatus ''Update completed with some issues'') st1),
              None))"

definition update_all_apps :: "run_result \<Rightarrow> store \<Rightarrow> store" where
  "update_all_apps result st =
     (case update_all_try result st of
        (st1, None) \<Rightarrow> idle_add (ShowProgress False) st1
      | (st1, Some e) \<Rightarrow>
          idle_add (ShowProgress False)
            (idle_add (ShowStatus (''Error updating applications: '' @ e)) st1))"

text \<open>
  When the UI thread runs a queued call, \<open>refresh_current_view\<close> reloads the installed
  applications only if the current page is not the store tab (page 0); on the store tab
  it redraws the catalog. So a queued call starts a reload if it is
  \<open>load_installed_apps\<close> itself, or a view refresh away from the store tab.
\<close>

definition starts_reload :: "nat \<Rightarrow> ui_call \<Rightarrow> bool" where
  "starts_reload current_page c =
     (c = LoadInstalledApps \<or> (c = RefreshCurrentView \<and> current_page \<noteq> 0))"

definition reload_triggered :: "nat \<Rightarrow> ui_call list \<Rightarrow> bool" where
  "reload_triggered current_page calls = list_ex (starts_reload current_page) calls"

text \<open>The status texts that end an operation, as the workers write them.\<close>

datatype operation = Install | Uninstall | Update

definition status_texts :: "ui_call list \<Rightarrow> string list" where
  "status_texts calls = concat (map (\<lambda>c. case c of ShowStatus m \<Rightarrow> [m] | _ \<Rightarrow> []) calls)"

fun terminal_status :: "operation \<Rightarrow> string \<Rightarrow> string \<Rightarrow> bool" where
  "terminal_status Install name m =
     (m = ''Successfully installed '' @ name \<or> m = ''Failed to install '' @ name
      \<or> prefix (''Error installing '' @ name @ '': '') m)"
| "terminal_status Uninstall name m =
     (m = ''Successfully uninstalled '' @ name
      \<or> prefix (''Failed to uninstall '' @ name @ '': '') m
      \<or> prefix (''Error uninstalling '' @ name @ '': '') m)"
| "terminal_status Update name m =
     (m = ''Successfully updated '' @ name \<or> m = ''No updates available for '' @ name
      \<or> prefix (''Error updating '' @ name @ '': '') m)"

section \<open>Screenshot lookup\<close>

text \<open>
  \<open>requests.get(url, timeout=10)\<close> on the detail API raises, or gives a response with a
  status code whose \<open>json()\<close> raises (\<open>None\<close>) or gives a value.
\<close>

datatype api_result = ApiRaised | ApiResponse nat "json option"

definition get_app_icon_url :: "string \<Rightarrow> string" where
  "get_app_icon_url app_id =
     ''https://flathub.org/repo/appstream/x86_64/icons/128x128/'' @ app_id @ ''.png''"

text \<open>Truth value of a JSON value, \<open>v[:1]\<close>, and \<open>shot.get('imgDesktopUrl', '')\<close>.\<close>

definition truthy :: "json \<Rightarrow> bool" where
  "truthy v =
     (case v of
        JNull \<Rightarrow> False
      | JBool b \<Rightarrow> b
      | JNum n \<Rightarrow> n \<noteq> 0
      | JStr s \<Rightarrow> s \<noteq> []
      | JList xs \<Rightarrow> xs \<noteq> []
      | JObj d \<Rightarrow> d \<noteq> [])"

definition slice_first :: "json \<Rightarrow> py_error + json" where
  "slice_first v =
     (case v of
        JList xs \<Rightarrow> Inr (JList (take 1 xs))
      | JStr s \<Rightarrow> Inr (JStr (take 1 s))
      | _ \<Rightarrow> Inl TypeError)"

definition img_desktop_url :: "json \<Rightarrow> py_error + json" where
  "img_desktop_url shot =
     (case shot of
        JObj d \<Rightarrow> Inr (dict_get d ''imgDesktopUrl'' (JStr []))
      | _ \<Rightarrow> Inl AttributeError)"

fun comprehension :: "json list \<Rightarrow> py_error + json list" where
  "comprehension [] = Inr []"
| "comprehension (shot # rest) =
     (case img_desktop_url shot of
        Inl e \<Rightarrow> Inl e
      | Inr u \<Rightarrow> (case comprehension rest of Inl e \<Rightarrow> Inl e | Inr us \<Rightarrow> Inr (u # us)))"

text \<open>
  The \<open>try\<close> block of \<open>get_app_screenshot_urls\<close>: it raises (\<open>Inl\<close>), returns a list
  (\<open>Inr (Some urls)\<close>) or falls through (\<open>Inr None\<close>). The handler catches every
  exception and does not look at it.
\<close>

definition screenshot_try :: "api_result \<Rightarrow> py_error + json list option" where
  "screenshot_try response =
     (case response of
        ApiRaised \<Rightarrow> Inl RequestException
      | ApiResponse status_code body \<Rightarrow>
          (if status_code = 200
           then (case body of
                   None \<Rightarrow> Inl ValueError
                 | Some data \<Rightarrow>
                     (case data of
                        JObj d \<Rightarrow>
                          (let screenshots = dict_get d ''screenshots'' (JList [])
                           in if truthy screenshots
                              then (case slice_first screenshots of
                                      Inl e \<Rightarrow> Inl e
                                    | Inr sl \<Rightarrow>
                                        (case py_iter sl of
                                           Inl e \<Rightarrow> Inl e
                                         | Inr shots \<Rightarrow>
                                             (case comprehension shots of
                                                Inl e \<Rightarrow> Inl e
                                              | Inr urls \<Rightarrow> Inr (Some urls))))
                              else Inr None)
                      | _ \<Rightarrow> Inl AttributeError))
           else Inr None))"

definition get_app_screenshot_urls :: "(string \<Rightarrow> api_result) \<Rightarrow> string \<Rightarrow> json list" where
  "get_app_screenshot_urls requests_get app_id =
     (case screenshot_try (requests_get (''https://flathub.org/api/v1/apps/'' @ app_id)) of
        Inr (Some urls) \<Rightarrow> urls
      | _ \<Rightarrow> [JStr (get_app_icon_url app_id)])"

section \<open>Disk image cache\<close>

text \<open>
  The world of \<open>download_image\<close>: the directories on disk, each with its files (name to
  contents), the lines printed, and the URLs requested from the network. A file exists
  only inside a directory that exists, so the cache directory may be missing, and then
  opening the cache file for writing raises. Removing a file that exists is taken to
  succeed. The environment gives the cache directory, the hex digest of a URL, the decoder
  (from a file's contents and the size asked for to an image, or the text of the error
  raised) and the answer of the network to a GET.

  An answer that is a response has a status code and a reason, and tells how the loop
  \<open>for chunk in response.iter_content(...): f.write(chunk)\<close> runs once the file is
  open: the chunks that are written, in order, and the error that ends the loop early, if
  any (the stream breaks before a further chunk is complete, or a write fails).
\<close>

datatype http_result =
    GetRaised string
  | Response nat string "string list" "string option"

record 'p env =
  cache_dir :: string
  hexdigest :: "string \<Rightarrow> string"
  new_from_file_at_scale :: "string \<Rightarrow> int \<times> int \<Rightarrow> string + 'p"
  requests_get :: "string \<Rightarrow> http_result"

record world =
  tree :: "string \<rightharpoonup> (string \<rightharpoonup> string)"
  printed :: "string list"
  requested :: "string list"

text \<open>
  \<open>os.path.split\<close>: the part after the last slash is the file name; the part before it,
  without its trailing slashes unless it consists of slashes only, is the directory.
\<close>

definition path_split :: "string \<Rightarrow> string \<times> string" where
  "path_split p =
     (let tail = rev (takeWhile (\<lambda>c. c \<noteq> CHR ''/'') (rev p));
          head = take (length p - length tail) p
      in (if head \<noteq> [] \<and> \<not> list_all (\<lambda>c. c = CHR ''/'') head
          then rev (dropWhile (\<lambda>c. c = CHR ''/'') (rev head))
          else head,
          tail))"

definition dirname :: "string \<Rightarrow> string" where
  "dirname p = fst (path_split p)"

definition basename :: "string \<Rightarrow> string" where
  "basename p = snd (path_split p)"

text \<open>
  The contents of the file at a path, if it exists (\<open>os.path.exists\<close> is
  \<open>files w path \<noteq> None\<close>), \<open>os.remove\<close>, and the writing of a whole file into a
  directory that exists.
\<close>

definition files :: "world \<Rightarrow> string \<rightharpoonup> string" where
  "files w path =
     (case tree w (dirname path) of
        None \<Rightarrow> None
      | Some d \<Rightarrow> d (basename path))"

definition os_remove :: "string \<Rightarrow> world \<Rightarrow> world" where
  "os_remove path w =
     (case tree w (dirname path) of
        None \<Rightarrow> w
      | Some d \<Rightarrow> w\<lparr>tree := (tree w)(dirname path \<mapsto> d(basename path := None))\<rparr>)"

definition write_file :: "string \<Rightarrow> string \<Rightarrow> (string \<rightharpoonup> string) \<Rightarrow> world \<Rightarrow> world" where
  "write_file path contents d w =
     w\<lparr>tree := (tree w)(dirname path \<mapsto> d(basename path \<mapsto> contents))\<rparr>"

definition no_such_file :: "string \<Rightarrow> string" where
  "no_such_file path = ''[Errno 2] No such file or directory: '' @ [CHR 0x27] @ path @ [CHR 0x27]"

definition os_path_join :: "string \<Rightarrow> string \<Rightarrow> string" where
  "os_path_join a b =
     (if b \<noteq> [] \<and> hd b = CHR ''/'' then b
      else if a = [] \<or> last a = CHR ''/'' then a @ b
      else a @ ''/'' @ b)"

definition cache_path_of :: "'p env \<Rightarrow> string \<Rightarrow> string" where
  "cache_path_of e url = os_path_join (cache_dir e) (hexdigest e url @ ''.png'')"

function dec :: "nat \<Rightarrow> string" where
  "dec n = (if n < 10 then [char_of (48 + n)] else dec (n div 10) @ [char_of (48 + n mod 10)])"
  by pat_completeness auto
termination
  by (relation "measure id") auto

text \<open>\<open>response.raise_for_status()\<close>: the text of the error for a status from 400 to 599.\<close>

definition raise_for_status :: "nat \<Rightarrow> string \<Rightarrow> string \<Rightarrow> string option" where
  "raise_for_status status_code reason url =
     (if 400 \<le> status_code \<and> status_code < 500
      then Some (dec status_code @ '' Client Error: '' @ reason @ '' for url: '' @ url)
      else if 500 \<le> status_code \<and> status_code < 600
      then Some (dec status_code @ '' Server Error: '' @ reason @ '' for url: '' @ url)
      else None)"

definition print_error :: "string \<Rightarrow> string \<Rightarrow> world \<Rightarrow> world" where
  "print_error url e w =
     w\<lparr>printed := printed w @ [''Error downloading image '' @ url @ '': '' @ e]\<rparr>"

text \<open>
  The second \<open>try\<close> block of \<open>download_image\<close>, with its handler: the GET, the status
  check, the opening of the cache file for writing (which raises when its directory does
  not exist, and otherwise creates the file, empty), the chunks written to it (the file
  keeps what was written when the loop ends early), then the decoding of the file just
  written.
\<close>

definition fetch_and_decode ::
  "'p env \<Rightarrow> string \<Rightarrow> int \<times> int \<Rightarrow> string \<Rightarrow> world \<Rightarrow> 'p option \<times> world" where
  "fetch_and_decode e url max_size cache_path w =
     (let w1 = w\<lparr>requested := requested w @ [url]\<rparr>
      in case requests_get e url of
           GetRaised err \<Rightarrow> (None, print_error url err w1)
         | Response status_code reason chunks loop_error \<Rightarrow>
             (case raise_for_status status_code reason url of
                Some err \<Rightarrow> (None, print_error url err w1)
              | None \<Rightarrow>
                  (case tree w1 (dirname cache_path) of
                     None \<Rightarrow> (None, print_error url (no_such_file cache_path) w1)
                   | Some d \<Rightarrow>
                       (let w2 = write_file cache_path (concat chunks) d w1
                        in case loop_error of
                             Some err \<Rightarrow> (None, print_error url err w2)
                           | None \<Rightarrow>
                               (case new_from_file_at_scale e (concat chunks) max_size of
                                  Inl err \<Rightarrow> (None, print_error url err w2)
                                | Inr pixbuf \<Rightarrow> (Some pixbuf, w2))))))"

definition download_image ::
  "'p env \<Rightarrow> string \<Rightarrow> int \<times> int \<Rightarrow> world \<Rightarrow> 'p option \<times> world" where
  "download_image e url max_size w =
     (if url = [] then (None, w)
      else (let cache_path = cache_path_of e url
            in case files w cache_path of
                 Some contents \<Rightarrow>
                   (case new_from_file_at_scale e contents max_size of
                      Inr pixbuf \<Rightarrow> (Some pixbuf, w)
                    | Inl err \<Rightarrow>
                        fetch_and_decode e url max_size cache_path (os_remove cache_path w))
               | None \<Rightarrow> fetch_and_decode e url max_size cache_path w))"

section \<open>Outcomes of an operation, for the statements\<close>

text \<open>
  The progress lines queued while the output of an installation is read, and whether an
  operation ended with exit code 0.
\<close>

definition progress_calls :: "string \<Rightarrow> string list \<Rightarrow> ui_call list" where
  "progress_calls name output =
     map (\<lambda>line. ShowStatus (''Installing '' @ name @ '': '' @ strip line))
       (filter (\<lambda>line. strip line \<noteq> []) output)"

definition install_succeeded :: "popen_result \<Rightarrow> bool" where
  "install_succeeded process =
     (case process of Started output None returncode \<Rightarrow> returncode = 0 | _ \<Rightarrow> False)"

definition run_succeeded :: "run_result \<Rightarrow> bool" where
  "run_succeeded result =
     (case result of Completed returncode out err \<Rightarrow> returncode = 0 | Raised e \<Rightarrow> False)"

section \<open>Concrete inputs\<close>

text \<open>Small inputs at which the theorems below are evaluated.\<close>

definition empty_store :: store where
  "empty_store =
     \<lparr>installed_apps = {}, current_operations = Map.empty, idle_queue = [], direct_calls = []\<rparr>"

text \<open>A detail API that cannot be reached, and one that answers with two screenshots.\<close>

definition api_down :: "string \<Rightarrow> api_result" where
  "api_down url = ApiRaised"

definition api_two_shots :: "string \<Rightarrow> api_result" where
  "api_two_shots url =
     ApiResponse 200
       (Some (JObj [(''screenshots'',
                     JList [JObj [(''imgDesktopUrl'', JStr ''https://dl.flathub.org/a.png'')],
                            JObj [(''imgDesktopUrl'', JStr ''https://dl.flathub.org/b.png'')]])]))"


text \<open>
  An environment for \<open>download_image\<close>: a decoder that accepts the contents starting
  with \<open>PNG\<close>, a network that serves a good image, a page that is not an image, and
  refuses every other URL. The digest is a stand-in (the theorems hold for every digest
  function).
\<close>

definition example_env :: "string env" where
  "example_env =
     \<lparr>cache_dir = ''/home/u/.cache/origami-store'',
      hexdigest = (\<lambda>url. if url = ''https://h/ok.png'' then ''0a'' else ''0b''),
      new_from_file_at_scale =
        (\<lambda>contents max_size.
           if prefix ''PNG'' contents then Inr contents
           else Inl ''Unrecognized image file format''),
      requests_get =
        (\<lambda>url. if url = ''https://h/ok.png'' then Response 200 ''OK'' [''PN'', ''G...''] None
               else if url = ''https://h/page.png'' then Response 200 ''OK'' [''<html>''] None
               else GetRaised ''Connection refused'')\<rparr>"

text \<open>
  Three disks: the cache directory empty, the cache directory holding a file that is not
  an image, and no cache directory at all.
\<close>

definition empty_world :: world where
  "empty_world =
     \<lparr>tree = [''/home/u/.cache/origami-store'' \<mapsto> Map.empty], printed = [], requested = []\<rparr>"

definition corrupt_world :: world where
  "corrupt_world =
     \<lparr>tree = [''/home/u/.cache/origami-store'' \<mapsto> [''0a.png'' \<mapsto> ''garbage'']],
      printed = [], requested = []\<rparr>"

definition no_cache_dir_world :: world where
  "no_cache_dir_world = \<lparr>tree = Map.empty, printed = [], requested = []\<rparr>"

section \<open>Category guess: theorems\<close>

lemma str_in_sublist: "str_in t s = sublist t s"
  by (induction s) (auto simp: sublist_Cons_right)

text \<open>
  C6. The category guess sends \<open>org.mozilla.firefox\<close> to \<open>Network\<close> and
  \<open>org.gimp.GIMP\<close> to \<open>Graphics\<close>; an id whose lower-cased form contains none of the
  keywords goes to \<open>Other\<close>; and for every id the chain of tests of the source gives the
  category of the first rule of the table that has a keyword occurring in the lower-cased
  id.
\<close>

theorem guess_category_first_match:
  "guess_category_from_id ''org.mozilla.firefox'' = [''Network'']
   \<and> guess_category_from_id ''org.gimp.GIMP'' = [''Graphics'']
   \<and> ((\<forall>k \<in> set all_keywords. \<not> str_in k (lower app_id))
        \<longrightarrow> guess_category_from_id app_id = [''Other''])
   \<and> guess_category_from_id app_id = first_matching_rule app_id"
proof -
  have firefox: "guess_category_from_id ''org.mozilla.firefox'' = [''Network'']"
    by code_simp
  have gimp: "guess_category_from_id ''org.gimp.GIMP'' = [''Graphics'']"
    by code_simp
  have other: "(\<forall>k \<in> set all_keywords. \<not> str_in k (lower app_id))
        \<longrightarrow> guess_category_from_id app_id = [''Other'']"
    by (simp add: guess_category_from_id_def all_keywords_def category_rules_def any_in_def)
  have table: "guess_category_from_id app_id = first_matching_rule app_id"
    by (simp add: guess_category_from_id_def first_matching_rule_def category_rules_def)
  from firefox gimp other table show ?thesis by blast
qed

theorem guess_category_first_match_witness:
  "\<not> list_ex (\<lambda>k. str_in k (lower ''org.gnome.Maps'')) all_keywords
   \<and> guess_category_from_id ''org.gnome.Maps'' = [''Other'']"
proof -
  have none: "\<not> list_ex (\<lambda>k. str_in k (lower ''org.gnome.Maps'')) all_keywords"
    by code_simp
  then have "\<forall>k \<in> set all_keywords. \<not> str_in k (lower ''org.gnome.Maps'')"
    by (simp add: list_ex_iff)
  with none guess_category_first_match [of "''org.gnome.Maps''"] show ?thesis by blast
qed

section \<open>Catalog normalization: theorems\<close>

lemma entry_items_agree: "entry_of_list_item app = entry_of_apps_item app"
  by (simp add: entry_of_list_item_def entry_of_apps_item_def)

lemma parse_loops_agree: "parse_list_loop xs apps = parse_apps_loop xs apps"
  by (induction xs arbitrary: apps) (simp_all add: entry_items_agree split: sum.splits)

text \<open>
  C10. Parsing a top-level list and parsing the dictionary that holds the same list under
  \<open>apps\<close> give the same result, the raised error included.
\<close>

theorem parse_v2_response_list_eq_apps:
  "parse_v2_response (JList xs) = parse_v2_response (JObj [(''apps'', JList xs)])"
  by (simp add: parse_v2_response_def dict_has_def dict_get_def py_iter_def parse_loops_agree)

text \<open>
  On a list of dictionaries the normalization returns one entry for each, with all six
  keys; the defaults are those of \<open>entry_of_list_item\<close>.
\<close>

lemma parse_list_loop_objects:
  "parse_list_loop (map JObj ds) apps =
     Inr (apps @ map (\<lambda>d. projr (entry_of_list_item (JObj d))) ds)"
  by (induction ds arbitrary: apps) (simp_all add: entry_of_list_item_def)

lemma parse_v2_response_total_on_objects:
  "\<exists>entries. parse_v2_response (JList (map JObj ds)) = Inr entries
     \<and> length entries = length ds
     \<and> (\<forall>entry \<in> set entries.
          map fst entry =
            [''flatpakAppId'', ''name'', ''summary'', ''categories'', ''icon'', ''screenshots''])"
  by (auto simp: parse_v2_response_def parse_list_loop_objects entry_of_list_item_def)

lemma entry_defaults:
  "entry_of_list_item (JObj []) =
     Inr [(''flatpakAppId'', JStr []),
          (''name'', JStr []),
          (''summary'', JStr ''No description available''),
          (''categories'', JList []),
          (''icon'', JStr []),
          (''screenshots'', JList [])]"
  by (simp add: entry_of_list_item_def dict_get_def)

text \<open>
  C4. A record that gives its id under \<open>flatpakAppId\<close> and has no \<open>name\<close> is normalized
  to an entry whose id is that value and whose name is the empty string: the default of
  the name reads the key \<open>id\<close> only, while the id itself also reads \<open>flatpakAppId\<close>.
\<close>

theorem parse_v2_response_name_without_id:
  "parse_v2_response (JList [JObj [(''flatpakAppId'', JStr ''org.gimp.GIMP'')]]) =
     Inr [[(''flatpakAppId'', JStr ''org.gimp.GIMP''),
           (''name'', JStr []),
           (''summary'', JStr ''No description available''),
           (''categories'', JList []),
           (''icon'', JStr []),
           (''screenshots'', JList [])]]"
  by (simp add: parse_v2_response_def entry_of_list_item_def dict_get_def)

section \<open>Catalog fallback: theorems\<close>

lemma seed_apps_not_empty: "seed_apps \<noteq> []"
  by (simp add: seed_apps_def popular_apps_def)

text \<open>
  When \<open>subprocess.run\<close> returns, whatever the exit code, the fallback loader does not
  return an empty list, and it returns the seed list when no line gave an entry.
\<close>

lemma load_apps_via_flatpak_completed:
  "fst (load_apps_via_flatpak (Completed returncode out err)) \<noteq> []"
  "returncode \<noteq> 0 \<or> remote_ls_loop (split_on NEWLINE (strip out)) [] = []
     \<Longrightarrow> fst (load_apps_via_flatpak (Completed returncode out err)) = seed_apps"
  by (auto simp: load_apps_via_flatpak_def Let_def seed_apps_not_empty)

text \<open>
  C5. When \<open>subprocess.run\<close> raises (here: the time limit), the handler around the whole
  body is entered before the seed list is reached, and the loader returns the empty list.
\<close>

theorem load_apps_via_flatpak_raised_is_empty:
  "load_apps_via_flatpak (Raised ''Command timed out after 30 seconds'')
     = ([], [''Error in fallback app loading: Command timed out after 30 seconds''])"
  by (simp add: load_apps_via_flatpak_def)

section \<open>Installed applications: theorems\<close>

lemma split_on_not_Nil: "split_on sep s \<noteq> []"
  by (induction s) (auto split: list.splits)

lemma split_on_no_sep: "sep \<notin> set s \<Longrightarrow> split_on sep s = [s]"
  by (induction s) auto

lemma split_on_first: "sep \<notin> set a \<Longrightarrow> split_on sep (a @ sep # s) = a # split_on sep s"
  by (induction a) (auto split: list.splits)

lemma hd_split_on: "hd (split_on sep s) = takeWhile (\<lambda>c. c \<noteq> sep) s"
  by (induction s) (auto simp: split_on_not_Nil split: list.splits)

lemma installed_loop_eq:
  "installed_loop ls st =
     st\<lparr>installed_apps := installed_apps st \<union> fst ` set (List.map_filter installed_entry ls),
        idle_queue := idle_queue st
          @ map (\<lambda>(a, n, d). AddInstalledAppCard a n d) (List.map_filter installed_entry ls)\<rparr>"
proof (induction ls arbitrary: st)
  case Nil
  show ?case by simp
next
  case (Cons line rest)
  show ?case
  proof (cases "installed_entry line")
    case None
    then have skip: "\<not> (strip line \<noteq> [] \<and> length (split_on TAB line) \<ge> 2)"
      by (auto simp: installed_entry_def split: if_splits)
    with None show ?thesis
      by (auto simp: Cons.IH Let_def)
  next
    case (Some entry)
    then have take: "strip line \<noteq> []" "length (split_on TAB line) \<ge> 2"
      and entry: "entry = (split_on TAB line ! 0, split_on TAB line ! 1,
                 if length (split_on TAB line) > 2 then split_on TAB line ! 2
                 else ''No description available'')"
      by (auto simp: installed_entry_def split: if_splits)
    from take have gt1: "length (split_on TAB line) > 1" by simp
    show ?thesis
      using Some take gt1
      by (simp add: Cons.IH Let_def idle_add_def entry Un_commute insert_commute)
  qed
qed

text \<open>
  After a successful listing the queue holds the clearing of the container and then one
  card for each line of the stripped output that gives an entry, and the installed set
  holds the ids of those entries.
\<close>

lemma load_installed_apps_queue:
  "queued_since st (load_installed_apps (Returned out) st) =
     ClearInstalledContainer
       # map (\<lambda>(a, n, d). AddInstalledAppCard a n d)
           (List.map_filter installed_entry (split_on NEWLINE (strip out)))"
  "installed_apps (load_installed_apps (Returned out) st) =
     fst ` set (List.map_filter installed_entry (split_on NEWLINE (strip out)))"
  by (simp_all add: load_installed_apps_def installed_loop_eq idle_add_def queued_since_def)

text \<open>
  A line with an id and a name, and no third column, gets the placeholder description; a
  line with a third column gets that column.
\<close>

lemma installed_entry_description_default:
  "TAB \<notin> set a \<Longrightarrow> TAB \<notin> set n \<Longrightarrow> n \<noteq> [] \<Longrightarrow> strip (a @ TAB # n) \<noteq> []
     \<Longrightarrow> installed_entry (a @ TAB # n) = Some (a, n, ''No description available'')"
  by (simp add: installed_entry_def split_on_first split_on_no_sep)

lemma installed_entry_three_columns:
  assumes "TAB \<notin> set a" and "TAB \<notin> set n" and "n \<noteq> []"
    and "strip (a @ TAB # n @ TAB # rest) \<noteq> []"
  shows "installed_entry (a @ TAB # n @ TAB # rest) = Some (a, n, takeWhile (\<lambda>c. c \<noteq> TAB) rest)"
proof (cases "split_on TAB rest")
  case Nil
  then show ?thesis by (simp add: split_on_not_Nil)
next
  case (Cons p ps)
  then have "p = takeWhile (\<lambda>c. c \<noteq> TAB) rest"
    using hd_split_on [of TAB rest] by simp
  with Cons assms show ?thesis
    by (simp add: installed_entry_def split_on_first)
qed

text \<open>
  C9. The name is not replaced by the id when the name column is missing. An application
  listed last with an empty name and an empty description leaves, once the output is
  stripped, a line with its id alone, and that line gives no entry at all; an application
  listed with an empty name and a description gives an entry whose name is the empty
  string. The default \<open>else app_id\<close> of the source is never taken, because the line is
  looked at only when it has at least two columns.
\<close>

theorem load_installed_apps_missing_name:
  "queued_since empty_store
     (load_installed_apps (Returned (''org.gimp.GIMP'' @ [TAB, TAB, NEWLINE])) empty_store)
     = [ClearInstalledContainer]
   \<and> installed_apps
       (load_installed_apps (Returned (''org.gimp.GIMP'' @ [TAB, TAB, NEWLINE])) empty_store)
     = {}
   \<and> queued_since empty_store
       (load_installed_apps
          (Returned (''org.gimp.GIMP'' @ [TAB, TAB] @ ''Image editor'' @ [NEWLINE])) empty_store)
     = [ClearInstalledContainer, AddInstalledAppCard ''org.gimp.GIMP'' [] ''Image editor'']"
  by (simp add: load_installed_apps_def queued_since_def empty_store_def idle_add_def
      strip_def isspace_def Let_def)

section \<open>Operations: theorems\<close>

lemma install_read_loop_eq:
  "install_read_loop name output st =
     st\<lparr>idle_queue := idle_queue st @ progress_calls name output\<rparr>"
  by (induction "output" arbitrary: st) (simp_all add: progress_calls_def idle_add_def)

lemma status_texts_append: "status_texts (xs @ ys) = status_texts xs @ status_texts ys"
  by (simp add: status_texts_def)

lemma status_texts_simps:
  "status_texts [] = []"
  "status_texts (ShowStatus m # cs) = m # status_texts cs"
  "status_texts (ShowProgress b # cs) = status_texts cs"
  "status_texts (RefreshCurrentView # cs) = status_texts cs"
  "status_texts (LoadInstalledApps # cs) = status_texts cs"
  by (simp_all add: status_texts_def)

lemma reload_triggered_append:
  "reload_triggered page (xs @ ys) = (reload_triggered page xs \<or> reload_triggered page ys)"
  by (simp add: reload_triggered_def list_ex_iff) blast

lemma reload_triggered_simps:
  "reload_triggered page [] = False"
  "reload_triggered page (ShowStatus m # cs) = reload_triggered page cs"
  "reload_triggered page (ShowProgress b # cs) = reload_triggered page cs"
  "reload_triggered page (RefreshCurrentView # cs) = (page \<noteq> 0 \<or> reload_triggered page cs)"
  "reload_triggered page (LoadInstalledApps # cs) = True"
  by (simp_all add: reload_triggered_def starts_reload_def)

lemma reload_triggered_progress: "reload_triggered page (progress_calls name output) = False"
  by (induction "output") (simp_all add: progress_calls_def reload_triggered_simps)

lemma install_app_queue:
  "queued_since st (install_app process app_id name st) =
     ShowStatus (''Installing '' @ name @ ''...'')
     # (case process of
          PopenRaised e \<Rightarrow> [ShowStatus (''Error installing '' @ name @ '': '' @ e)]
        | Started output read_error returncode \<Rightarrow>
            progress_calls name output
            @ (case read_error of
                 Some e \<Rightarrow> [ShowStatus (''Error installing '' @ name @ '': '' @ e)]
               | None \<Rightarrow>
                   (if returncode = 0
                    then [ShowStatus (''Successfully installed '' @ name), LoadInstalledApps]
                    else [ShowStatus (''Failed to install '' @ name)])))
     @ [RefreshCurrentView, ShowProgress False]"
  by (simp add: install_app_def install_worker_def install_try_def finally_clear_refresh_def
      install_read_loop_eq idle_add_def call_now_def queued_since_def Let_def
      split: popen_result.splits option.splits)

lemma install_app_cleared:
  "current_operations (install_app process app_id name st) app_id = None"
  by (simp add: install_app_def install_worker_def install_try_def finally_clear_refresh_def
      install_read_loop_eq idle_add_def call_now_def Let_def
      split: popen_result.splits option.splits)

lemma uninstall_app_queue:
  "queued_since st (uninstall_app True result app_id name st) =
     ShowStatus (''Uninstalling '' @ name @ ''...'')
     # (case result of
          Raised e \<Rightarrow> [ShowStatus (''Error uninstalling '' @ name @ '': '' @ e)]
        | Completed returncode out err \<Rightarrow>
            (if returncode = 0
             then [ShowStatus (''Successfully uninstalled '' @ name), LoadInstalledApps]
             else [ShowStatus (''Failed to uninstall '' @ name @ '': '' @ err)]))
     @ [RefreshCurrentView, ShowProgress False]"
  by (simp add: uninstall_app_def uninstall_worker_def uninstall_try_def finally_clear_refresh_def
      idle_add_def call_now_def queued_since_def Let_def
      split: run_result.splits)

lemma uninstall_app_cleared:
  "current_operations (uninstall_app True result app_id name st) app_id = None"
  by (simp add: uninstall_app_def uninstall_worker_def uninstall_try_def finally_clear_refresh_def
      idle_add_def call_now_def Let_def
      split: run_result.splits)

lemma update_app_queue:
  "queued_since st (update_app result app_id name st) =
     ShowStatus (''Updating '' @ name @ ''...'')
     # (case result of
          Raised e \<Rightarrow> [ShowStatus (''Error updating '' @ name @ '': '' @ e)]
        | Completed returncode out err \<Rightarrow>
            (if returncode = 0
             then [ShowStatus (''Successfully updated '' @ name)]
             else [ShowStatus (''No updates available for '' @ name)]))
     @ [LoadInstalledApps]"
  by (simp add: update_app_def update_worker_def update_try_def finally_clear_reload_def
      idle_add_def queued_since_def Let_def
      split: run_result.splits)

lemma update_app_cleared:
  "current_operations (update_app result app_id name st) app_id = None"
  by (simp add: update_app_def update_worker_def update_try_def finally_clear_reload_def
      idle_add_def Let_def
      split: run_result.splits)

lemma update_all_apps_queue:
  "queued_since st (update_all_apps result st) =
     [ShowStatus ''Updating all applications...'', ShowProgress True]
     @ (case result of
          Raised e \<Rightarrow> [ShowStatus (''Error updating applications: '' @ e)]
        | Completed returncode out err \<Rightarrow>
            (if returncode = 0
             then [ShowStatus ''All applications updated successfully'', LoadInstalledApps]
             else [ShowStatus ''Update completed with some issues'', LoadInstalledApps]))
     @ [ShowProgress False]"
  by (simp add: update_all_apps_def update_all_try_def
      idle_add_def queued_since_def Let_def
      split: run_result.splits)

lemma status_texts_progress_last:
  "status_texts (progress_calls name output @ ShowStatus m # cs) \<noteq> []"
  by (simp add: status_texts_append status_texts_simps)

text \<open>
  C7. For install, uninstall (once the dialog is confirmed) and update, whatever the
  subprocess does (exit code 0, another exit code, an exception at launch or while its
  output is read), the entry of the package id in \<open>current_operations\<close> is gone at the
  end, and the last status text queued is a terminal one: the success text, the failure
  text or the error text of the operation.
\<close>

theorem operation_cleanup_unconditional:
  "current_operations (install_app process app_id name st) app_id = None
   \<and> status_texts (queued_since st (install_app process app_id name st)) \<noteq> []
   \<and> terminal_status Install name
        (last (status_texts (queued_since st (install_app process app_id name st))))
   \<and> current_operations (uninstall_app True result app_id name st) app_id = None
   \<and> status_texts (queued_since st (uninstall_app True result app_id name st)) \<noteq> []
   \<and> terminal_status Uninstall name
        (last (status_texts (queued_since st (uninstall_app True result app_id name st))))
   \<and> current_operations (update_app result app_id name st) app_id = None
   \<and> status_texts (queued_since st (update_app result app_id name st)) \<noteq> []
   \<and> terminal_status Update name
        (last (status_texts (queued_since st (update_app result app_id name st))))"
proof -
  have i: "status_texts (queued_since st (install_app process app_id name st)) \<noteq> []"
    by (simp add: install_app_queue status_texts_simps)
  have it: "terminal_status Install name
        (last (status_texts (queued_since st (install_app process app_id name st))))"
    by (simp add: install_app_queue status_texts_simps status_texts_append
        split: popen_result.splits option.splits)
  have u: "status_texts (queued_since st (uninstall_app True result app_id name st)) \<noteq> []"
    by (simp add: uninstall_app_queue status_texts_simps)
  have ut: "terminal_status Uninstall name
        (last (status_texts (queued_since st (uninstall_app True result app_id name st))))"
    by (simp add: uninstall_app_queue status_texts_simps status_texts_append
        split: run_result.splits)
  have p: "status_texts (queued_since st (update_app result app_id name st)) \<noteq> []"
    by (simp add: update_app_queue status_texts_simps)
  have pt: "terminal_status Update name
        (last (status_texts (queued_since st (update_app result app_id name st))))"
    by (simp add: update_app_queue status_texts_simps status_texts_append
        split: run_result.splits)
  from i it u ut p pt install_app_cleared uninstall_app_cleared update_app_cleared
  show ?thesis by blast
qed

text \<open>
  C8, as the code has it. An update queues a reload of the installed applications on every
  outcome. An install or an uninstall queues it when the exit code is 0; on every other
  outcome it queues only a refresh of the current view, which reloads the installed
  applications exactly when the current page is not the store tab. Updating everything
  queues the reload whenever the subprocess returns, with any exit code.
\<close>

theorem reload_after_operations:
  "reload_triggered page (queued_since st (update_app result app_id name st))
   \<and> reload_triggered page (queued_since st (install_app process app_id name st))
       = (install_succeeded process \<or> page \<noteq> 0)
   \<and> reload_triggered page (queued_since st (uninstall_app True result app_id name st))
       = (run_succeeded result \<or> page \<noteq> 0)
   \<and> reload_triggered page (queued_since st (update_all_apps (Completed returncode out err) st))"
proof -
  have a: "reload_triggered page (queued_since st (update_app result app_id name st))"
    by (simp add: update_app_queue reload_triggered_simps reload_triggered_append)
  have b: "reload_triggered page (queued_since st (install_app process app_id name st))
       = (install_succeeded process \<or> page \<noteq> 0)"
    by (auto simp: install_app_queue reload_triggered_simps reload_triggered_append
        reload_triggered_progress install_succeeded_def
        split: popen_result.splits option.splits)
  have c: "reload_triggered page (queued_since st (uninstall_app True result app_id name st))
       = (run_succeeded result \<or> page \<noteq> 0)"
    by (auto simp: uninstall_app_queue reload_triggered_simps reload_triggered_append
        run_succeeded_def split: run_result.splits)
  have d: "reload_triggered page (queued_since st (update_all_apps (Completed returncode out err) st))"
    by (simp add: update_all_apps_queue reload_triggered_simps reload_triggered_append)
  from a b c d show ?thesis by blast
qed

text \<open>
  C8, as stated, fails: an installation that ends with exit code 1 while the store tab is
  shown queues nothing that reloads the installed applications.
\<close>

theorem install_failure_no_reload_on_store_tab:
  "\<not> reload_triggered 0
       (queued_since empty_store
          (install_app (Started [''error: Nothing matches org.gimp.GIMP''] None 1)
             ''org.gimp.GIMP'' ''GIMP'' empty_store))"
  by (simp add: install_app_queue reload_triggered_simps reload_triggered_append
      reload_triggered_progress)

text \<open>When the subprocess of the update of everything raises, no reload is queued.\<close>

lemma update_all_apps_raised_no_reload:
  "\<not> reload_triggered page (queued_since st (update_all_apps (Raised e) st))"
  by (simp add: update_all_apps_queue reload_triggered_simps)

theorem reload_after_operations_witness:
  "reload_triggered 0
     (queued_since empty_store
        (install_app (Started [] None 0) ''org.gimp.GIMP'' ''GIMP'' empty_store))
   \<and> reload_triggered 1
     (queued_since empty_store
        (uninstall_app True (Completed 1 [] ''error'') ''org.gimp.GIMP'' ''GIMP'' empty_store))"
proof -
  have s: "install_succeeded (Started [] None 0)" by (simp add: install_succeeded_def)
  from s reload_after_operations [of 0 empty_store _ "''org.gimp.GIMP''" "''GIMP''" "Started [] None 0"]
    reload_after_operations [of 1 empty_store "Completed 1 [] ''error''" "''org.gimp.GIMP''" "''GIMP''"]
  show ?thesis by simp
qed

theorem operation_cleanup_unconditional_witness:
  "current_operations (install_app (PopenRaised ''No such file or directory: flatpak'')
       ''org.gimp.GIMP'' ''GIMP'' empty_store) ''org.gimp.GIMP'' = None
   \<and> last (status_texts (queued_since empty_store
        (install_app (PopenRaised ''No such file or directory: flatpak'')
           ''org.gimp.GIMP'' ''GIMP'' empty_store)))
      = ''Error installing GIMP: No such file or directory: flatpak''"
proof -
  have q: "last (status_texts (queued_since empty_store
        (install_app (PopenRaised ''No such file or directory: flatpak'')
           ''org.gimp.GIMP'' ''GIMP'' empty_store)))
      = ''Error installing GIMP: No such file or directory: flatpak''"
    by (simp add: install_app_queue status_texts_simps)
  from q operation_cleanup_unconditional [of "PopenRaised ''No such file or directory: flatpak''"
      "''org.gimp.GIMP''" "''GIMP''" empty_store]
  show ?thesis by simp
qed

section \<open>Screenshot lookup: theorems\<close>

text \<open>
  C3, as the code has it. When the detail API answers with status 200 and a dictionary
  whose \<open>screenshots\<close> is a list starting with a dictionary, the result is the one-element
  list holding that first entry's \<open>imgDesktopUrl\<close> (the empty string when the entry has
  no such key). When the request raises, the status is not 200 or the \<open>screenshots\<close>
  field is absent, the result is the one-element list holding the icon URL. The result
  always has exactly one element.
\<close>

theorem get_app_screenshot_urls_cases:
  "(api (''https://flathub.org/api/v1/apps/'' @ app_id) = ApiResponse 200 (Some (JObj d))
      \<and> map_of d ''screenshots'' = Some (JList (JObj shot # others))
     \<longrightarrow> get_app_screenshot_urls api app_id
           = [dict_get shot ''imgDesktopUrl'' (JStr [])])
   \<and> (api (''https://flathub.org/api/v1/apps/'' @ app_id) = ApiRaised
     \<longrightarrow> get_app_screenshot_urls api app_id = [JStr (get_app_icon_url app_id)])
   \<and> (api (''https://flathub.org/api/v1/apps/'' @ app_id) = ApiResponse status_code body
      \<and> status_code \<noteq> 200
     \<longrightarrow> get_app_screenshot_urls api app_id = [JStr (get_app_icon_url app_id)])
   \<and> (api (''https://flathub.org/api/v1/apps/'' @ app_id) = ApiResponse 200 (Some (JObj d))
      \<and> map_of d ''screenshots'' = None
     \<longrightarrow> get_app_screenshot_urls api app_id = [JStr (get_app_icon_url app_id)])
   \<and> length (get_app_screenshot_urls api app_id) = 1"
proof -
  have first: "api (''https://flathub.org/api/v1/apps/'' @ app_id) = ApiResponse 200 (Some (JObj d))
      \<and> map_of d ''screenshots'' = Some (JList (JObj shot # others))
     \<longrightarrow> get_app_screenshot_urls api app_id
           = [dict_get shot ''imgDesktopUrl'' (JStr [])]"
    by (simp add: get_app_screenshot_urls_def screenshot_try_def dict_get_def truthy_def
        slice_first_def py_iter_def img_desktop_url_def)
  have raised: "api (''https://flathub.org/api/v1/apps/'' @ app_id) = ApiRaised
     \<longrightarrow> get_app_screenshot_urls api app_id = [JStr (get_app_icon_url app_id)]"
    by (simp add: get_app_screenshot_urls_def screenshot_try_def)
  have status: "api (''https://flathub.org/api/v1/apps/'' @ app_id) = ApiResponse status_code body
      \<and> status_code \<noteq> 200
     \<longrightarrow> get_app_screenshot_urls api app_id = [JStr (get_app_icon_url app_id)]"
    by (simp add: get_app_screenshot_urls_def screenshot_try_def)
  have absent: "api (''https://flathub.org/api/v1/apps/'' @ app_id) = ApiResponse 200 (Some (JObj d))
      \<and> map_of d ''screenshots'' = None
     \<longrightarrow> get_app_screenshot_urls api app_id = [JStr (get_app_icon_url app_id)]"
    by (simp add: get_app_screenshot_urls_def screenshot_try_def dict_get_def truthy_def)
  have compr: "comprehension shots = Inr urls \<Longrightarrow> length urls = length shots" for shots urls
    by (induction shots arbitrary: urls) (auto split: sum.splits)
  have min1: "xs \<noteq> [] \<Longrightarrow> min (length xs) (Suc 0) = Suc 0" for xs :: "'a list"
    by (cases xs) simp_all
  have one: "length (get_app_screenshot_urls api app_id) = 1"
  proof (cases "screenshot_try (api (''https://flathub.org/api/v1/apps/'' @ app_id))")
    case (Inl e)
    then show ?thesis by (simp add: get_app_screenshot_urls_def)
  next
    case (Inr r)
    show ?thesis
    proof (cases r)
      case None
      with Inr show ?thesis by (simp add: get_app_screenshot_urls_def)
    next
      case (Some urls)
      with Inr have "screenshot_try (api (''https://flathub.org/api/v1/apps/'' @ app_id))
          = Inr (Some urls)" by simp
      then have "length urls = 1"
        by (auto simp: screenshot_try_def truthy_def slice_first_def py_iter_def Let_def min1
            dest!: compr
            split: api_result.splits if_splits option.splits json.splits sum.splits list.splits)
      with Inr Some show ?thesis by (simp add: get_app_screenshot_urls_def)
    qed
  qed
  from first raised status absent one show ?thesis by blast
qed

text \<open>
  C3, as stated, fails: when the request raises, the result is not the empty list but the
  list holding the icon URL.
\<close>

theorem get_app_screenshot_urls_failure_gives_icon:
  "get_app_screenshot_urls api_down ''org.gimp.GIMP''
     = [JStr ''https://flathub.org/repo/appstream/x86_64/icons/128x128/org.gimp.GIMP.png'']"
  by (simp add: get_app_screenshot_urls_def screenshot_try_def api_down_def get_app_icon_url_def)

theorem get_app_screenshot_urls_cases_witness:
  "get_app_screenshot_urls api_two_shots ''org.gimp.GIMP'' = [JStr ''https://dl.flathub.org/a.png'']
   \<and> get_app_screenshot_urls api_down ''org.gimp.GIMP'' = [JStr (get_app_icon_url ''org.gimp.GIMP'')]"
proof -
  have r: "api_two_shots (''https://flathub.org/api/v1/apps/'' @ ''org.gimp.GIMP'')
      = ApiResponse 200
       (Some (JObj [(''screenshots'',
                     JList [JObj [(''imgDesktopUrl'', JStr ''https://dl.flathub.org/a.png'')],
                            JObj [(''imgDesktopUrl'', JStr ''https://dl.flathub.org/b.png'')]])]))"
    by (simp add: api_two_shots_def)
  have m: "map_of [(''screenshots'',
                     JList [JObj [(''imgDesktopUrl'', JStr ''https://dl.flathub.org/a.png'')],
                            JObj [(''imgDesktopUrl'', JStr ''https://dl.flathub.org/b.png'')]])]
              ''screenshots''
       = Some (JList (JObj [(''imgDesktopUrl'', JStr ''https://dl.flathub.org/a.png'')]
                       # [JObj [(''imgDesktopUrl'', JStr ''https://dl.flathub.org/b.png'')]]))"
    by simp
  have d: "api_down (''https://flathub.org/api/v1/apps/'' @ ''org.gimp.GIMP'') = ApiRaised"
    by (simp add: api_down_def)
  have g: "dict_get [(''imgDesktopUrl'', JStr ''https://dl.flathub.org/a.png'')] ''imgDesktopUrl'' (JStr [])
      = JStr ''https://dl.flathub.org/a.png''"
    by (simp add: dict_get_def)
  from r m g get_app_screenshot_urls_cases [where api = api_two_shots and app_id = "''org.gimp.GIMP''"
       and d = "[(''screenshots'',
                     JList [JObj [(''imgDesktopUrl'', JStr ''https://dl.flathub.org/a.png'')],
                            JObj [(''imgDesktopUrl'', JStr ''https://dl.flathub.org/b.png'')]])]"
       and shot = "[(''imgDesktopUrl'', JStr ''https://dl.flathub.org/a.png'')]"
       and others = "[JObj [(''imgDesktopUrl'', JStr ''https://dl.flathub.org/b.png'')]]"]
  have a: "get_app_screenshot_urls api_two_shots ''org.gimp.GIMP'' = [JStr ''https://dl.flathub.org/a.png'']"
    by simp
  from d get_app_screenshot_urls_cases [where api = api_down and app_id = "''org.gimp.GIMP''"]
  have b: "get_app_screenshot_urls api_down ''org.gimp.GIMP'' = [JStr (get_app_icon_url ''org.gimp.GIMP'')]"
    by blast
  from a b show ?thesis by blast
qed

section \<open>Disk image cache: theorems\<close>

text \<open>The guard at the top: with no URL nothing is read, written or requested.\<close>

lemma download_image_empty_url: "download_image e [] max_size w = (None, w)"
  by (simp add: download_image_def)

text \<open>Files on the disk: what removing and writing one file changes.\<close>

lemma files_os_remove: "files (os_remove path w) path = None"
  by (simp add: files_def os_remove_def split: option.splits)

lemma dir_of_file: "files w path = Some contents \<Longrightarrow> tree w (dirname path) \<noteq> None"
  by (simp add: files_def split: option.splits)

lemma dir_after_os_remove:
  "tree w (dirname path) \<noteq> None \<Longrightarrow> tree (os_remove path w) (dirname path) \<noteq> None"
  by (auto simp: os_remove_def split: option.splits)

lemma os_remove_fields:
  "printed (os_remove path w) = printed w"
  "requested (os_remove path w) = requested w"
  by (simp_all add: os_remove_def split: option.splits)

lemma files_write_file: "files (write_file path contents d w) path = Some contents"
  by (simp add: files_def write_file_def)

lemma files_write_file_other:
  "tree w (dirname path) = Some d \<Longrightarrow> path_split p \<noteq> path_split path
     \<Longrightarrow> files (write_file path contents d w) p = files w p"
  by (auto simp: files_def write_file_def dirname_def basename_def prod_eq_iff
      split: option.splits)

lemma files_cong_tree: "tree w' = tree w \<Longrightarrow> files w' = files w"
  by (rule ext) (simp add: files_def)

text \<open>The network path, case by case.\<close>

lemma fetch_and_decode_requested:
  "requested (snd (fetch_and_decode e url max_size cache_path w)) = requested w @ [url]"
  by (simp add: fetch_and_decode_def print_error_def write_file_def Let_def
      split: http_result.splits option.splits sum.splits)

lemma fetch_and_decode_other_files:
  "path_split p \<noteq> path_split cache_path
     \<Longrightarrow> files (snd (fetch_and_decode e url max_size cache_path w)) p = files w p"
proof -
  assume other: "path_split p \<noteq> path_split cache_path"
  have same: "files (w'\<lparr>printed := l\<rparr>) = files w'" "files (w'\<lparr>requested := r\<rparr>) = files w'"
    for w' :: world and l r
    by (rule ext, simp add: files_def)+
  have written: "files (write_file cache_path c d (w\<lparr>requested := r\<rparr>)) p = files w p"
    if "tree w (dirname cache_path) = Some d" for c d r
    using files_write_file_other [of "w\<lparr>requested := r\<rparr>" cache_path d p c] that other
    by (simp add: same)
  show ?thesis
    by (simp add: fetch_and_decode_def print_error_def Let_def same written
        split: http_result.splits option.splits sum.splits)
qed

lemma fetch_and_decode_refused:
  "requests_get e url = GetRaised err \<Longrightarrow>
     fetch_and_decode e url max_size cache_path w
       = (None, print_error url err (w\<lparr>requested := requested w @ [url]\<rparr>))"
  "requests_get e url = Response status_code reason chunks loop_error
     \<Longrightarrow> raise_for_status status_code reason url = Some err' \<Longrightarrow>
     fetch_and_decode e url max_size cache_path w
       = (None, print_error url err' (w\<lparr>requested := requested w @ [url]\<rparr>))"
  by (simp_all add: fetch_and_decode_def Let_def)

lemma fetch_and_decode_no_directory:
  "requests_get e url = Response status_code reason chunks loop_error
     \<Longrightarrow> raise_for_status status_code reason url = None
     \<Longrightarrow> tree w (dirname cache_path) = None \<Longrightarrow>
     fetch_and_decode e url max_size cache_path w
       = (None, print_error url (no_such_file cache_path) (w\<lparr>requested := requested w @ [url]\<rparr>))"
  by (simp add: fetch_and_decode_def Let_def)

lemma fetch_and_decode_loop_ended_early:
  "requests_get e url = Response status_code reason chunks (Some err)
     \<Longrightarrow> raise_for_status status_code reason url = None
     \<Longrightarrow> tree w (dirname cache_path) = Some d \<Longrightarrow>
     fetch_and_decode e url max_size cache_path w
       = (None, print_error url err
                  (write_file cache_path (concat chunks) d (w\<lparr>requested := requested w @ [url]\<rparr>)))"
  by (simp add: fetch_and_decode_def Let_def)

lemma fetch_and_decode_complete:
  "requests_get e url = Response status_code reason chunks None
     \<Longrightarrow> raise_for_status status_code reason url = None
     \<Longrightarrow> tree w (dirname cache_path) = Some d \<Longrightarrow>
     fetch_and_decode e url max_size cache_path w
       = (case new_from_file_at_scale e (concat chunks) max_size of
            Inl err \<Rightarrow>
              (None, print_error url err
                 (write_file cache_path (concat chunks) d (w\<lparr>requested := requested w @ [url]\<rparr>)))
          | Inr pixbuf \<Rightarrow>
              (Some pixbuf,
               write_file cache_path (concat chunks) d (w\<lparr>requested := requested w @ [url]\<rparr>)))"
  by (simp add: fetch_and_decode_def Let_def split: sum.splits)

lemma files_print_error: "files (print_error url err w) = files w"
  by (rule files_cong_tree) (simp add: print_error_def)

lemma files_requested_update: "files (w\<lparr>requested := r\<rparr>) = files w"
  by (rule files_cong_tree) simp

lemma print_error_fields:
  "tree (print_error url err w) = tree w"
  "printed (print_error url err w) = printed w @ [''Error downloading image '' @ url @ '': '' @ err]"
  "requested (print_error url err w) = requested w"
  by (simp_all add: print_error_def)

lemma write_file_fields:
  "printed (write_file path contents d w) = printed w"
  "requested (write_file path contents d w) = requested w"
  by (simp_all add: write_file_def)

lemma fetch_and_decode_image:
  "fst (fetch_and_decode e url max_size cache_path w) = Some pixbuf \<Longrightarrow>
     \<exists>status_code reason chunks.
        requests_get e url = Response status_code reason chunks None
        \<and> raise_for_status status_code reason url = None
        \<and> files (snd (fetch_and_decode e url max_size cache_path w)) cache_path
            = Some (concat chunks)
        \<and> new_from_file_at_scale e (concat chunks) max_size = Inr pixbuf"
  by (auto simp: fetch_and_decode_def print_error_def files_write_file Let_def
      split: http_result.splits option.splits sum.splits)

text \<open>
  C1. For a URL (a non-empty string: the empty one is answered with none before the cache
  is looked at) whose cache file exists and does not decode, one call of
  \<open>download_image\<close> removes the file and goes on, in the same call, as on a cache miss:
  the URL is requested from the network. An image that is returned was decoded from the
  bytes of the response, which are then the contents of the cache file, so the old
  contents are never returned; when the response is complete and its status is no error,
  the file holds its bytes and the result is the decoding of that file; when the request
  raises or the status is an error, the file stays removed and the result is none.
\<close>

theorem download_image_corrupt_cache_refetches:
  assumes url: "url \<noteq> []"
    and cached: "files w (cache_path_of e url) = Some contents"
    and corrupt: "new_from_file_at_scale e contents max_size = Inl err"
  shows "download_image e url max_size w =
           fetch_and_decode e url max_size (cache_path_of e url)
             (os_remove (cache_path_of e url) w)
    \<and> files (os_remove (cache_path_of e url) w) (cache_path_of e url) = None
    \<and> requested (snd (download_image e url max_size w)) = requested w @ [url]
    \<and> (\<forall>pixbuf. fst (download_image e url max_size w) = Some pixbuf \<longrightarrow>
          (\<exists>status_code reason chunks.
              requests_get e url = Response status_code reason chunks None
              \<and> files (snd (download_image e url max_size w)) (cache_path_of e url)
                  = Some (concat chunks)
              \<and> new_from_file_at_scale e (concat chunks) max_size = Inr pixbuf))
    \<and> (\<forall>status_code reason chunks.
          requests_get e url = Response status_code reason chunks None
          \<and> raise_for_status status_code reason url = None \<longrightarrow>
            files (snd (download_image e url max_size w)) (cache_path_of e url)
              = Some (concat chunks)
            \<and> fst (download_image e url max_size w)
                = (case new_from_file_at_scale e (concat chunks) max_size of
                     Inr pixbuf \<Rightarrow> Some pixbuf | Inl err' \<Rightarrow> None))
    \<and> (\<forall>err' status_code reason chunks loop_error.
          requests_get e url = GetRaised err'
          \<or> (requests_get e url = Response status_code reason chunks loop_error
              \<and> raise_for_status status_code reason url \<noteq> None) \<longrightarrow>
            files (snd (download_image e url max_size w)) (cache_path_of e url) = None
            \<and> fst (download_image e url max_size w) = None)"
proof -
  let ?p = "cache_path_of e url"
  let ?w = "os_remove ?p w"
  have eq: "download_image e url max_size w = fetch_and_decode e url max_size ?p ?w"
    using url cached corrupt by (simp add: download_image_def Let_def)
  have removed: "files ?w ?p = None"
    by (rule files_os_remove)
  from cached have "tree ?w (dirname ?p) \<noteq> None"
    by (intro dir_after_os_remove dir_of_file)
  then obtain d where dir: "tree ?w (dirname ?p) = Some d"
    by blast
  have req: "requested (snd (download_image e url max_size w)) = requested w @ [url]"
    by (simp add: eq fetch_and_decode_requested os_remove_fields)
  have img: "\<forall>pixbuf. fst (download_image e url max_size w) = Some pixbuf \<longrightarrow>
          (\<exists>status_code reason chunks.
              requests_get e url = Response status_code reason chunks None
              \<and> files (snd (download_image e url max_size w)) ?p = Some (concat chunks)
              \<and> new_from_file_at_scale e (concat chunks) max_size = Inr pixbuf)"
    unfolding eq using fetch_and_decode_image [of e url max_size ?p ?w] by blast
  have ok: "\<forall>status_code reason chunks.
          requests_get e url = Response status_code reason chunks None
          \<and> raise_for_status status_code reason url = None \<longrightarrow>
            files (snd (download_image e url max_size w)) ?p = Some (concat chunks)
            \<and> fst (download_image e url max_size w)
                = (case new_from_file_at_scale e (concat chunks) max_size of
                     Inr pixbuf \<Rightarrow> Some pixbuf | Inl err' \<Rightarrow> None)"
  proof (intro allI impI)
    fix status_code reason chunks
    assume "requests_get e url = Response status_code reason chunks None
          \<and> raise_for_status status_code reason url = None"
    then have get: "requests_get e url = Response status_code reason chunks None"
      and status: "raise_for_status status_code reason url = None"
      by simp_all
    show "files (snd (download_image e url max_size w)) ?p = Some (concat chunks)
            \<and> fst (download_image e url max_size w)
                = (case new_from_file_at_scale e (concat chunks) max_size of
                     Inr pixbuf \<Rightarrow> Some pixbuf | Inl err' \<Rightarrow> None)"
      unfolding eq fetch_and_decode_complete [OF get status dir]
      by (simp add: files_print_error files_write_file split: sum.splits)
  qed
  have bad: "\<forall>err' status_code reason chunks loop_error.
          requests_get e url = GetRaised err'
          \<or> (requests_get e url = Response status_code reason chunks loop_error
              \<and> raise_for_status status_code reason url \<noteq> None) \<longrightarrow>
            files (snd (download_image e url max_size w)) ?p = None
            \<and> fst (download_image e url max_size w) = None"
  proof (intro allI impI)
    fix err' status_code reason chunks loop_error
    assume "requests_get e url = GetRaised err'
          \<or> (requests_get e url = Response status_code reason chunks loop_error
              \<and> raise_for_status status_code reason url \<noteq> None)"
    then show "files (snd (download_image e url max_size w)) ?p = None
            \<and> fst (download_image e url max_size w) = None"
    proof
      assume "requests_get e url = GetRaised err'"
      then show ?thesis
        unfolding eq
        by (simp add: fetch_and_decode_refused files_print_error files_requested_update removed)
    next
      assume "requests_get e url = Response status_code reason chunks loop_error
              \<and> raise_for_status status_code reason url \<noteq> None"
      then obtain msg where "requests_get e url = Response status_code reason chunks loop_error"
        and "raise_for_status status_code reason url = Some msg"
        by auto
      then show ?thesis
        unfolding eq
        by (simp add: fetch_and_decode_refused files_print_error files_requested_update removed)
    qed
  qed
  from eq removed req img ok bad show ?thesis by blast
qed

lemma example_paths:
  "cache_path_of example_env ''https://h/ok.png'' = ''/home/u/.cache/origami-store/0a.png''"
  "cache_path_of example_env ''https://h/page.png'' = ''/home/u/.cache/origami-store/0b.png''"
  "cache_path_of example_env ''https://h/gone.png'' = ''/home/u/.cache/origami-store/0b.png''"
  "dirname ''/home/u/.cache/origami-store/0a.png'' = ''/home/u/.cache/origami-store''"
  "basename ''/home/u/.cache/origami-store/0a.png'' = ''0a.png''"
  "dirname ''/home/u/.cache/origami-store/0b.png'' = ''/home/u/.cache/origami-store''"
  "basename ''/home/u/.cache/origami-store/0b.png'' = ''0b.png''"
  by (simp_all add: cache_path_of_def example_env_def os_path_join_def
      dirname_def basename_def path_split_def)

lemma example_answers:
  "requests_get example_env ''https://h/ok.png'' = Response 200 ''OK'' [''PN'', ''G...''] None"
  "requests_get example_env ''https://h/page.png'' = Response 200 ''OK'' [''<html>''] None"
  "requests_get example_env ''https://h/gone.png'' = GetRaised ''Connection refused''"
  "new_from_file_at_scale example_env ''garbage'' (400, 200) = Inl ''Unrecognized image file format''"
  "new_from_file_at_scale example_env ''<html>'' (400, 200) = Inl ''Unrecognized image file format''"
  "new_from_file_at_scale example_env ''PNG...'' (400, 200) = Inr ''PNG...''"
  by (simp_all add: example_env_def)

theorem download_image_corrupt_cache_refetches_witness:
  "files corrupt_world (cache_path_of example_env ''https://h/ok.png'') = Some ''garbage''
   \<and> new_from_file_at_scale example_env ''garbage'' (400, 200)
       = Inl ''Unrecognized image file format''
   \<and> requested (snd (download_image example_env ''https://h/ok.png'' (400, 200) corrupt_world))
       = [''https://h/ok.png'']
   \<and> files (snd (download_image example_env ''https://h/ok.png'' (400, 200) corrupt_world))
        (cache_path_of example_env ''https://h/ok.png'') = Some ''PNG...''
   \<and> fst (download_image example_env ''https://h/ok.png'' (400, 200) corrupt_world)
       = Some ''PNG...''"
proof -
  have url: "''https://h/ok.png'' \<noteq> []" by simp
  have cached: "files corrupt_world (cache_path_of example_env ''https://h/ok.png'') = Some ''garbage''"
    by (simp add: example_paths corrupt_world_def files_def)
  have corrupt: "new_from_file_at_scale example_env ''garbage'' (400, 200)
       = Inl ''Unrecognized image file format''"
    by (simp add: example_answers)
  have get: "requests_get example_env ''https://h/ok.png'' = Response 200 ''OK'' [''PN'', ''G...''] None"
    by (simp add: example_answers)
  have status: "raise_for_status 200 ''OK'' ''https://h/ok.png'' = None"
    by (simp add: raise_for_status_def)
  have decode: "new_from_file_at_scale example_env (concat [''PN'', ''G...'']) (400, 200) = Inr ''PNG...''"
    by (simp add: example_answers)
  have req: "requested corrupt_world = []" by (simp add: corrupt_world_def)
  note refetch = download_image_corrupt_cache_refetches [OF url cached corrupt]
  from refetch have "requested (snd (download_image example_env ''https://h/ok.png'' (400, 200) corrupt_world))
       = requested corrupt_world @ [''https://h/ok.png'']"
    by blast
  with req have a: "requested (snd (download_image example_env ''https://h/ok.png'' (400, 200) corrupt_world))
       = [''https://h/ok.png'']"
    by simp
  from refetch get status
  have "files (snd (download_image example_env ''https://h/ok.png'' (400, 200) corrupt_world))
        (cache_path_of example_env ''https://h/ok.png'') = Some (concat [''PN'', ''G...''])
      \<and> fst (download_image example_env ''https://h/ok.png'' (400, 200) corrupt_world)
        = (case new_from_file_at_scale example_env (concat [''PN'', ''G...'']) (400, 200) of
             Inr pixbuf \<Rightarrow> Some pixbuf | Inl err' \<Rightarrow> None)"
    by blast
  with decode have b: "files (snd (download_image example_env ''https://h/ok.png'' (400, 200) corrupt_world))
        (cache_path_of example_env ''https://h/ok.png'') = Some ''PNG...''
      \<and> fst (download_image example_env ''https://h/ok.png'' (400, 200) corrupt_world)
        = Some ''PNG...''"
    by simp
  from a b cached corrupt show ?thesis by blast
qed

text \<open>
  C2, as the code has it. On a cache miss for a non-empty URL, every network error and
  every decode error makes the call return none and print one line
  \<open>Error downloading image ...\<close> with the text of the error; the URL has been requested
  once, and no file other than the cache file of this URL has changed. The disk is
  unchanged when the request raises, when the status is an error (400 to 599), and when
  the cache directory does not exist (opening the file raises). When the status is no
  error and the cache directory exists, the cache file is left holding the chunks that
  were written: those written before the loop ended early, or all of them when the
  decoding of the file fails.
\<close>

theorem download_image_miss_error:
  assumes url: "url \<noteq> []"
    and miss: "files w (cache_path_of e url) = None"
  shows "(\<forall>err. requests_get e url = GetRaised err \<longrightarrow>
            fst (download_image e url max_size w) = None
            \<and> tree (snd (download_image e url max_size w)) = tree w
            \<and> printed (snd (download_image e url max_size w))
                = printed w @ [''Error downloading image '' @ url @ '': '' @ err])
    \<and> (\<forall>status_code reason chunks loop_error err.
          requests_get e url = Response status_code reason chunks loop_error
          \<and> raise_for_status status_code reason url = Some err \<longrightarrow>
            fst (download_image e url max_size w) = None
            \<and> tree (snd (download_image e url max_size w)) = tree w
            \<and> printed (snd (download_image e url max_size w))
                = printed w @ [''Error downloading image '' @ url @ '': '' @ err])
    \<and> (\<forall>status_code reason chunks err.
          requests_get e url = Response status_code reason chunks (Some err)
          \<and> raise_for_status status_code reason url = None
          \<and> tree w (dirname (cache_path_of e url)) \<noteq> None \<longrightarrow>
            fst (download_image e url max_size w) = None
            \<and> files (snd (download_image e url max_size w)) (cache_path_of e url)
                = Some (concat chunks)
            \<and> printed (snd (download_image e url max_size w))
                = printed w @ [''Error downloading image '' @ url @ '': '' @ err])
    \<and> (\<forall>status_code reason chunks err.
          requests_get e url = Response status_code reason chunks None
          \<and> raise_for_status status_code reason url = None
          \<and> tree w (dirname (cache_path_of e url)) \<noteq> None
          \<and> new_from_file_at_scale e (concat chunks) max_size = Inl err \<longrightarrow>
            fst (download_image e url max_size w) = None
            \<and> files (snd (download_image e url max_size w)) (cache_path_of e url)
                = Some (concat chunks)
            \<and> printed (snd (download_image e url max_size w))
                = printed w @ [''Error downloading image '' @ url @ '': '' @ err])
    \<and> (\<forall>status_code reason chunks loop_error.
          requests_get e url = Response status_code reason chunks loop_error
          \<and> raise_for_status status_code reason url = None
          \<and> tree w (dirname (cache_path_of e url)) = None \<longrightarrow>
            fst (download_image e url max_size w) = None
            \<and> tree (snd (download_image e url max_size w)) = tree w
            \<and> printed (snd (download_image e url max_size w))
                = printed w @ [''Error downloading image '' @ url @ '': ''
                               @ no_such_file (cache_path_of e url)])
    \<and> requested (snd (download_image e url max_size w)) = requested w @ [url]
    \<and> (\<forall>p. path_split p \<noteq> path_split (cache_path_of e url) \<longrightarrow>
          files (snd (download_image e url max_size w)) p = files w p)"
proof -
  let ?p = "cache_path_of e url"
  have eq: "download_image e url max_size w = fetch_and_decode e url max_size ?p w"
    using url miss by (simp add: download_image_def Let_def)
  have raised: "\<forall>err. requests_get e url = GetRaised err \<longrightarrow>
            fst (download_image e url max_size w) = None
            \<and> tree (snd (download_image e url max_size w)) = tree w
            \<and> printed (snd (download_image e url max_size w))
                = printed w @ [''Error downloading image '' @ url @ '': '' @ err]"
    by (simp add: eq fetch_and_decode_refused print_error_fields)
  have status: "\<forall>status_code reason chunks loop_error err.
          requests_get e url = Response status_code reason chunks loop_error
          \<and> raise_for_status status_code reason url = Some err \<longrightarrow>
            fst (download_image e url max_size w) = None
            \<and> tree (snd (download_image e url max_size w)) = tree w
            \<and> printed (snd (download_image e url max_size w))
                = printed w @ [''Error downloading image '' @ url @ '': '' @ err]"
    by (simp add: eq fetch_and_decode_refused print_error_fields)
  have early: "\<forall>status_code reason chunks err.
          requests_get e url = Response status_code reason chunks (Some err)
          \<and> raise_for_status status_code reason url = None
          \<and> tree w (dirname ?p) \<noteq> None \<longrightarrow>
            fst (download_image e url max_size w) = None
            \<and> files (snd (download_image e url max_size w)) ?p = Some (concat chunks)
            \<and> printed (snd (download_image e url max_size w))
                = printed w @ [''Error downloading image '' @ url @ '': '' @ err]"
    by (auto simp: eq fetch_and_decode_loop_ended_early print_error_fields files_print_error
        files_write_file write_file_fields)
  have decode: "\<forall>status_code reason chunks err.
          requests_get e url = Response status_code reason chunks None
          \<and> raise_for_status status_code reason url = None
          \<and> tree w (dirname ?p) \<noteq> None
          \<and> new_from_file_at_scale e (concat chunks) max_size = Inl err \<longrightarrow>
            fst (download_image e url max_size w) = None
            \<and> files (snd (download_image e url max_size w)) ?p = Some (concat chunks)
            \<and> printed (snd (download_image e url max_size w))
                = printed w @ [''Error downloading image '' @ url @ '': '' @ err]"
    by (auto simp: eq fetch_and_decode_complete print_error_fields files_print_error
        files_write_file write_file_fields)
  have nodir: "\<forall>status_code reason chunks loop_error.
          requests_get e url = Response status_code reason chunks loop_error
          \<and> raise_for_status status_code reason url = None
          \<and> tree w (dirname ?p) = None \<longrightarrow>
            fst (download_image e url max_size w) = None
            \<and> tree (snd (download_image e url max_size w)) = tree w
            \<and> printed (snd (download_image e url max_size w))
                = printed w @ [''Error downloading image '' @ url @ '': '' @ no_such_file ?p]"
    by (simp add: eq fetch_and_decode_no_directory print_error_fields)
  have req: "requested (snd (download_image e url max_size w)) = requested w @ [url]"
    by (simp add: eq fetch_and_decode_requested)
  have others: "\<forall>p. path_split p \<noteq> path_split ?p \<longrightarrow>
          files (snd (download_image e url max_size w)) p = files w p"
    by (simp add: eq fetch_and_decode_other_files)
  from raised status early decode nodir req others show ?thesis by blast
qed

text \<open>
  C2, as stated, fails: a download that is not an image makes the call return none, and
  the cache, empty before, now holds the file.
\<close>

theorem download_image_undecodable_download_stays:
  "fst (download_image example_env ''https://h/page.png'' (400, 200) empty_world) = None
   \<and> files empty_world ''/home/u/.cache/origami-store/0b.png'' = None
   \<and> files (snd (download_image example_env ''https://h/page.png'' (400, 200) empty_world))
        ''/home/u/.cache/origami-store/0b.png'' = Some ''<html>''"
  by (simp add: download_image_def fetch_and_decode_def example_paths empty_world_def
      example_answers raise_for_status_def print_error_def files_def write_file_def)

theorem download_image_miss_error_witness:
  "fst (download_image example_env ''https://h/gone.png'' (400, 200) empty_world) = None
   \<and> tree (snd (download_image example_env ''https://h/gone.png'' (400, 200) empty_world))
       = tree empty_world
   \<and> fst (download_image example_env ''https://h/page.png'' (400, 200) empty_world) = None
   \<and> files (snd (download_image example_env ''https://h/page.png'' (400, 200) empty_world))
        (cache_path_of example_env ''https://h/page.png'') = Some ''<html>''
   \<and> fst (download_image example_env ''https://h/page.png'' (400, 200) no_cache_dir_world) = None
   \<and> tree (snd (download_image example_env ''https://h/page.png'' (400, 200) no_cache_dir_world))
       = tree no_cache_dir_world"
proof -
  have gone_url: "''https://h/gone.png'' \<noteq> []" by simp
  have gone_miss: "files empty_world (cache_path_of example_env ''https://h/gone.png'') = None"
    by (simp add: empty_world_def files_def example_paths)
  have gone_get: "requests_get example_env ''https://h/gone.png'' = GetRaised ''Connection refused''"
    by (simp add: example_answers)
  have page_url: "''https://h/page.png'' \<noteq> []" by simp
  have page_miss: "files empty_world (cache_path_of example_env ''https://h/page.png'') = None"
    by (simp add: empty_world_def files_def example_paths)
  have page_get: "requests_get example_env ''https://h/page.png'' = Response 200 ''OK'' [''<html>''] None"
    by (simp add: example_answers)
  have status: "raise_for_status 200 ''OK'' ''https://h/page.png'' = None"
    by (simp add: raise_for_status_def)
  have page_dir: "tree empty_world (dirname (cache_path_of example_env ''https://h/page.png'')) \<noteq> None"
    by (simp add: empty_world_def example_paths)
  have page_decode: "new_from_file_at_scale example_env (concat [''<html>'']) (400, 200)
      = Inl ''Unrecognized image file format''"
    by (simp add: example_answers)
  have nodir_miss: "files no_cache_dir_world (cache_path_of example_env ''https://h/page.png'') = None"
    by (simp add: no_cache_dir_world_def files_def)
  have nodir: "tree no_cache_dir_world (dirname (cache_path_of example_env ''https://h/page.png'')) = None"
    by (simp add: no_cache_dir_world_def)
  note gone = download_image_miss_error [OF gone_url gone_miss, of "(400, 200)"]
  note page = download_image_miss_error [OF page_url page_miss, of "(400, 200)"]
  note lost = download_image_miss_error [OF page_url nodir_miss, of "(400, 200)"]
  have a: "fst (download_image example_env ''https://h/gone.png'' (400, 200) empty_world) = None
   \<and> tree (snd (download_image example_env ''https://h/gone.png'' (400, 200) empty_world))
       = tree empty_world"
    using gone [THEN conjunct1, rule_format, OF gone_get] by simp
  have b: "fst (download_image example_env ''https://h/page.png'' (400, 200) empty_world) = None
   \<and> files (snd (download_image example_env ''https://h/page.png'' (400, 200) empty_world))
        (cache_path_of example_env ''https://h/page.png'') = Some ''<html>''"
    using page [THEN conjunct2, THEN conjunct2, THEN conjunct2, THEN conjunct1, rule_format,
        of 200 "''OK''" "[''<html>'']" "''Unrecognized image file format''"]
      page_get status page_dir page_decode
    by simp
  have c: "fst (download_image example_env ''https://h/page.png'' (400, 200) no_cache_dir_world) = None
   \<and> tree (snd (download_image example_env ''https://h/page.png'' (400, 200) no_cache_dir_world))
       = tree no_cache_dir_world"
    using lost [THEN conjunct2, THEN conjunct2, THEN conjunct2, THEN conjunct2, THEN conjunct1,
        rule_format, of 200 "''OK''" "[''<html>'']" None]
      page_get status nodir
    by simp
  from a b c show ?thesis by simp
qed

end
